theory Spec2Isabelle
  imports Main "HOL-Library.AList"
begin

section \<open>Python objects as seen by \<open>magicbot/inject.py\<close>\<close>

text \<open>
  The two functions of \<open>magicbot/inject.py\<close> look at Python objects through a handful of
  observations only: \<open>x is None\<close>, \<open>isinstance(x, type)\<close>, \<open>isinstance(x, T)\<close>,
  \<open>type(x)\<close>, \<open>getattr(x, "__origin__", None)\<close>, \<open>hasattr(component, n)\<close> and the text
  that \<open>repr\<close>/\<open>str\<close> give for an error message. The object model below carries exactly
  what those observations need.

  A class is its qualified name and its direct base classes; \<open>object\<close> is the class with
  no base.
\<close>

datatype cls = Cls (cls_name: string) (cls_bases: "cls list")

text \<open>
  An object is \<open>None\<close>, a class (an instance of the metaclass \<open>type\<close>), or an instance of
  a class that is not itself a class; such an instance carries the text of its \<open>repr\<close> and
  its \<open>__origin__\<close> attribute when it has one (the generic aliases of \<open>typing\<close> do:
  \<open>List[int].__origin__\<close> is \<open>list\<close>).
\<close>

datatype pyobj =
    PyNone
  | PyClass cls
  | PyInst (inst_cls: cls) (inst_repr: string) (inst_origin: "pyobj option")

definition object_cls :: cls where
  "object_cls = Cls ''object'' []"

definition type_cls :: cls where
  "type_cls = Cls ''type'' [object_cls]"

definition NoneType_cls :: cls where
  "NoneType_cls = Cls ''NoneType'' [object_cls]"

definition int_cls :: cls where
  "int_cls = Cls ''int'' [object_cls]"

definition bool_cls :: cls where
  "bool_cls = Cls ''bool'' [int_cls]"

definition float_cls :: cls where
  "float_cls = Cls ''float'' [object_cls]"

definition list_cls :: cls where
  "list_cls = Cls ''list'' [object_cls]"

text \<open>\<open>issubclass(C, T)\<close>: \<open>T\<close> is \<open>C\<close> or an ancestor of \<open>C\<close>.\<close>

fun issubclass :: "cls \<Rightarrow> cls \<Rightarrow> bool" where
  "issubclass (Cls name bases) T = (Cls name bases = T \<or> (\<exists>B \<in> set bases. issubclass B T))"

text \<open>\<open>type(x)\<close>.\<close>

fun type_of :: "pyobj \<Rightarrow> cls" where
  "type_of PyNone = NoneType_cls"
| "type_of (PyClass c) = type_cls"
| "type_of (PyInst c r origin) = c"

text \<open>\<open>isinstance(x, T)\<close> for a class \<open>T\<close>: the runtime class of \<open>x\<close> is \<open>T\<close> or derives from it.\<close>

definition isinstance :: "pyobj \<Rightarrow> cls \<Rightarrow> bool" where
  "isinstance x T = issubclass (type_of x) T"

text \<open>
  \<open>getattr(x, "__origin__", None)\<close>: the attribute, or \<open>None\<close> when the object has none.
\<close>

fun getattr_origin :: "pyobj \<Rightarrow> pyobj" where
  "getattr_origin (PyInst c r (Some origin)) = origin"
| "getattr_origin x = PyNone"

text \<open>The text of a class in a message, \<open><class 'name'>\<close>, and \<open>repr\<close> of an object.\<close>

definition class_repr :: "cls \<Rightarrow> string" where
  "class_repr c = ''<class '' @ [CHR 0x27] @ cls_name c @ [CHR 0x27] @ ''>''"

fun py_repr :: "pyobj \<Rightarrow> string" where
  "py_repr PyNone = ''None''"
| "py_repr (PyClass c) = class_repr c"
| "py_repr (PyInst c r origin) = r"

text \<open>\<open>s.startswith(p)\<close>.\<close>

definition startswith :: "string \<Rightarrow> string \<Rightarrow> bool" where
  "startswith s p = (take (length p) s = p)"

subsection \<open>Dictionaries, components, errors\<close>

text \<open>
  A dict whose iteration order matters (\<open>type_hints\<close>, \<open>requests\<close>, \<open>to_inject\<close>) is an
  association list in insertion order; its keys are distinct. \<open>d[k] = v\<close> is
  \<open>AList.update k v d\<close>: the value is replaced in place when the key is there, and the
  entry is appended otherwise. The pool of injectables is only ever read by key, so it is
  a map. A live component is the table of the attributes that \<open>getattr\<close> finds on it.
\<close>

type_synonym 'v dict = "(string \<times> 'v) list"

type_synonym component = "string \<rightharpoonup> pyobj"

definition hasattr :: "component \<Rightarrow> string \<Rightarrow> bool" where
  "hasattr obj n = (obj n \<noteq> None)"

text \<open>\<open>d.get(k)\<close>: the value under \<open>k\<close>, or \<open>None\<close> when the key is absent.\<close>

definition dict_get :: "(string \<rightharpoonup> pyobj) \<Rightarrow> string \<Rightarrow> pyobj" where
  "dict_get d k = (case d k of None \<Rightarrow> PyNone | Some v \<Rightarrow> v)"

text \<open>
  The exceptions the module raises, each with its message: \<open>MagicInjectError\<close> (a
  \<open>ValueError\<close>) and the builtin \<open>TypeError\<close>.
\<close>

datatype error = MagicInjectError string | TypeError string

section \<open>\<open>get_injection_requests\<close>\<close>

definition private_param_message :: "string \<Rightarrow> string \<Rightarrow> string" where
  "private_param_message cname n =
     ''Cannot inject into component '' @ cname @ '' __init__ param '' @ n"

definition static_variable_hint :: string where
  "static_variable_hint =
     CHR 0x0A # ''Lone non-injection variable annotations are disallowed. Did you mean to assign a static variable?''"

definition non_type_message :: "string \<Rightarrow> string \<Rightarrow> pyobj \<Rightarrow> component option \<Rightarrow> string" where
  "non_type_message cname n inject_type component =
     (let message = ''Component '' @ cname @ '' has a non-type annotation '' @ n @ '': ''
                      @ py_repr inject_type
      in if component \<noteq> None then message @ static_variable_hint else message)"

text \<open>Lines 36 to 38: a hint that carries an \<open>__origin__\<close> is replaced by it.\<close>

definition generic_origin :: "pyobj \<Rightarrow> pyobj" where
  "generic_origin inject_type =
     (let origin = getattr_origin inject_type
      in if origin \<noteq> PyNone then origin else inject_type)"

text \<open>
  The \<open>for\<close> loop over \<open>type_hints.items()\<close>, with the dict \<open>requests\<close> built so far.
  A \<open>raise\<close> ends the call with \<open>Inl\<close>; \<open>continue\<close> goes on with the remaining items.
\<close>

fun get_injection_requests_loop ::
  "pyobj dict \<Rightarrow> string \<Rightarrow> component option \<Rightarrow> cls dict \<Rightarrow> error + cls dict" where
  "get_injection_requests_loop [] cname component requests = Inr requests"
| "get_injection_requests_loop ((n, inject_type) # rest) cname component requests =
     (if startswith n ''_'' then
        (if component = None then Inl (MagicInjectError (private_param_message cname n))
         else get_injection_requests_loop rest cname component requests)
      else if (case component of None \<Rightarrow> False | Some obj \<Rightarrow> hasattr obj n) then
        get_injection_requests_loop rest cname component requests
      else
        (case generic_origin inject_type of
           PyClass c \<Rightarrow>
             get_injection_requests_loop rest cname component (AList.update n c requests)
         | non_type \<Rightarrow> Inl (TypeError (non_type_message cname n non_type component))))"

definition get_injection_requests ::
  "pyobj dict \<Rightarrow> string \<Rightarrow> component option \<Rightarrow> error + cls dict" where
  "get_injection_requests type_hints cname component =
     get_injection_requests_loop type_hints cname component []"

section \<open>\<open>find_injections\<close>\<close>

text \<open>
  The module's logger is the only state outside the arguments. \<open>logger.debug(fmt, args)\<close>
  hands a record with its arguments to the handlers when the debug level is enabled and
  does nothing otherwise.
\<close>

record logger =
  debug_enabled :: bool
  emitted :: "(string \<times> string \<times> pyobj) list"

definition logger_debug :: "logger \<Rightarrow> string \<Rightarrow> string \<Rightarrow> pyobj \<Rightarrow> logger" where
  "logger_debug lg cname n injectable =
     (if debug_enabled lg then lg\<lparr>emitted := emitted lg @ [(cname, n, injectable)]\<rparr> else lg)"

definition absent_message :: "string \<Rightarrow> string \<Rightarrow> cls \<Rightarrow> string" where
  "absent_message cname n inject_type =
     ''Component '' @ cname @ '' has variable '' @ n @ '' (type '' @ class_repr inject_type
       @ ''), which is absent from robot''"

definition mismatch_message :: "string \<Rightarrow> string \<Rightarrow> pyobj \<Rightarrow> cls \<Rightarrow> string" where
  "mismatch_message cname n injectable inject_type =
     ''Component '' @ cname @ '' variable '' @ n @ '' does not match type in robot! (Got ''
       @ class_repr (type_of injectable) @ '', expected '' @ class_repr inject_type @ '')''"

text \<open>Lines 68 to 71: the lookup by the bare name, then by \<open>{cname}_{n}\<close>.\<close>

definition lookup_injectable :: "(string \<rightharpoonup> pyobj) \<Rightarrow> string \<Rightarrow> string \<Rightarrow> pyobj" where
  "lookup_injectable injectables cname n =
     (let injectable = dict_get injectables n
      in if injectable = PyNone then dict_get injectables (cname @ ''_'' @ n) else injectable)"

text \<open>
  The \<open>for\<close> loop over \<open>requests.items()\<close>, with the dict \<open>to_inject\<close> built so far and
  the logger. A \<open>raise\<close> ends the call with \<open>Inl\<close> and the logger as it is then.
\<close>

fun find_injections_loop ::
  "cls dict \<Rightarrow> (string \<rightharpoonup> pyobj) \<Rightarrow> string \<Rightarrow> pyobj dict \<Rightarrow> logger
     \<Rightarrow> (error + pyobj dict) \<times> logger" where
  "find_injections_loop [] injectables cname to_inject lg = (Inr to_inject, lg)"
| "find_injections_loop ((n, inject_type) # rest) injectables cname to_inject lg =
     (let injectable = lookup_injectable injectables cname n
      in if injectable = PyNone then
           (Inl (MagicInjectError (absent_message cname n inject_type)), lg)
         else if \<not> isinstance injectable inject_type then
           (Inl (MagicInjectError (mismatch_message cname n injectable inject_type)), lg)
         else
           find_injections_loop rest injectables cname
             (AList.update n injectable to_inject) (logger_debug lg cname n injectable))"

definition find_injections ::
  "cls dict \<Rightarrow> (string \<rightharpoonup> pyobj) \<Rightarrow> string \<Rightarrow> logger \<Rightarrow> (error + pyobj dict) \<times> logger" where
  "find_injections requests injectables cname lg =
     find_injections_loop requests injectables cname [] lg"

text \<open>
  The caller's sequence: extraction, then resolution of the extracted requests. An
  exception of the first call ends the sequence.
\<close>

definition extract_then_resolve ::
  "pyobj dict \<Rightarrow> string \<Rightarrow> component option \<Rightarrow> (string \<rightharpoonup> pyobj) \<Rightarrow> logger
     \<Rightarrow> (error + pyobj dict) \<times> logger" where
  "extract_then_resolve type_hints cname component injectables lg =
     (case get_injection_requests type_hints cname component of
        Inl e \<Rightarrow> (Inl e, lg)
      | Inr requests \<Rightarrow> find_injections requests injectables cname lg)"

section \<open>Auxiliary notions\<close>

text \<open>
  A request resolves when the lookup finds a value that is not \<open>None\<close> and is an instance
  of the requested class: the two tests of lines 74 and 80 both pass.
\<close>

definition resolves :: "(string \<rightharpoonup> pyobj) \<Rightarrow> string \<Rightarrow> string \<times> cls \<Rightarrow> bool" where
  "resolves injectables cname r =
     (lookup_injectable injectables cname (fst r) \<noteq> PyNone
      \<and> isinstance (lookup_injectable injectables cname (fst r)) (snd r))"

text \<open>
  An annotation is passed over (\<open>continue\<close>) when a live component is given and the name
  is private or is already an attribute of the component: lines 25 to 33.
\<close>

definition is_skipped :: "component option \<Rightarrow> string \<Rightarrow> bool" where
  "is_skipped component n =
     (case component of None \<Rightarrow> False | Some obj \<Rightarrow> startswith n ''_'' \<or> hasattr obj n)"

section \<open>Properties\<close>

subsection \<open>One iteration of each loop\<close>

lemma extract_private_param:
  "startswith n ''_'' \<Longrightarrow>
   get_injection_requests_loop ((n, t) # rest) cname None requests
     = Inl (MagicInjectError (private_param_message cname n))"
  by simp

lemma extract_skip:
  "is_skipped component n \<Longrightarrow>
   get_injection_requests_loop ((n, t) # rest) cname component requests
     = get_injection_requests_loop rest cname component requests"
  by (cases component) (auto simp: is_skipped_def)

lemma extract_record:
  "\<not> startswith n ''_'' \<Longrightarrow> \<not> is_skipped component n \<Longrightarrow> generic_origin t = PyClass c \<Longrightarrow>
   get_injection_requests_loop ((n, t) # rest) cname component requests
     = get_injection_requests_loop rest cname component (AList.update n c requests)"
  by (cases component) (auto simp: is_skipped_def)

lemma extract_non_type:
  "\<not> startswith n ''_'' \<Longrightarrow> \<not> is_skipped component n \<Longrightarrow> \<forall>c. generic_origin t \<noteq> PyClass c \<Longrightarrow>
   get_injection_requests_loop ((n, t) # rest) cname component requests
     = Inl (TypeError (non_type_message cname n (generic_origin t) component))"
  by (cases component; cases "generic_origin t") (auto simp: is_skipped_def)

lemma extract_cases:
  obtains (private_param) "startswith n ''_''" "component = None"
  | (skip) "is_skipped component n"
  | (recorded) c where "\<not> startswith n ''_''" "\<not> is_skipped component n" "generic_origin t = PyClass c"
  | (non_type) "\<not> startswith n ''_''" "\<not> is_skipped component n" "\<forall>c. generic_origin t \<noteq> PyClass c"
  by (cases component; cases "generic_origin t") (auto simp: is_skipped_def)

lemma resolve_absent:
  "lookup_injectable injectables cname n = PyNone \<Longrightarrow>
   find_injections_loop ((n, T) # rest) injectables cname to_inject lg
     = (Inl (MagicInjectError (absent_message cname n T)), lg)"
  by simp

lemma resolve_mismatch:
  "lookup_injectable injectables cname n = v \<Longrightarrow> v \<noteq> PyNone \<Longrightarrow> \<not> isinstance v T \<Longrightarrow>
   find_injections_loop ((n, T) # rest) injectables cname to_inject lg
     = (Inl (MagicInjectError (mismatch_message cname n v T)), lg)"
  by (auto simp: Let_def)

lemma resolve_record:
  "lookup_injectable injectables cname n = v \<Longrightarrow> v \<noteq> PyNone \<Longrightarrow> isinstance v T \<Longrightarrow>
   find_injections_loop ((n, T) # rest) injectables cname to_inject lg
     = find_injections_loop rest injectables cname (AList.update n v to_inject)
         (logger_debug lg cname n v)"
  by (auto simp: Let_def)

lemma resolve_cases:
  obtains (absent) "lookup_injectable injectables cname n = PyNone"
  | (mismatch) "lookup_injectable injectables cname n \<noteq> PyNone"
      "\<not> isinstance (lookup_injectable injectables cname n) T"
  | (recorded) "lookup_injectable injectables cname n \<noteq> PyNone"
      "isinstance (lookup_injectable injectables cname n) T"
  by blast

declare get_injection_requests_loop.simps(2) [simp del]
declare find_injections_loop.simps(2) [simp del]

subsection \<open>The loops as a whole\<close>

lemma find_injections_loop_append:
  "find_injections_loop (pre @ rest) injectables cname to_inject lg =
     (case find_injections_loop pre injectables cname to_inject lg of
        (Inl e, lg') \<Rightarrow> (Inl e, lg')
      | (Inr to_inject', lg') \<Rightarrow> find_injections_loop rest injectables cname to_inject' lg')"
proof (induction pre arbitrary: to_inject lg)
  case Nil
  show ?case by simp
next
  case (Cons r pre)
  obtain n T where r: "r = (n, T)" by (cases r)
  show ?case
  proof (cases rule: resolve_cases [where injectables = injectables and cname = cname and n = n and T = T])
    case absent
    then show ?thesis by (simp add: r resolve_absent)
  next
    case mismatch
    then show ?thesis by (simp add: r resolve_mismatch)
  next
    case recorded
    then show ?thesis using Cons.IH by (simp add: r resolve_record)
  qed
qed

lemma get_injection_requests_loop_append:
  "get_injection_requests_loop (pre @ rest) cname component requests =
     (case get_injection_requests_loop pre cname component requests of
        Inl e \<Rightarrow> Inl e
      | Inr requests' \<Rightarrow> get_injection_requests_loop rest cname component requests')"
proof (induction pre arbitrary: requests)
  case Nil
  show ?case by simp
next
  case (Cons h pre)
  obtain n t where h: "h = (n, t)" by (cases h)
  show ?case
  proof (cases rule: extract_cases [where n = n and component = component and t = t])
    case private_param
    then show ?thesis by (simp add: h extract_private_param)
  next
    case skip
    then show ?thesis using Cons.IH by (simp add: h extract_skip)
  next
    case (recorded c)
    then show ?thesis using Cons.IH by (simp add: h extract_record)
  next
    case non_type
    then show ?thesis by (simp add: h extract_non_type)
  qed
qed

lemma update_append_fresh:
  "k \<notin> fst ` set al \<Longrightarrow> AList.update k v al = al @ [(k, v)]"
  by (induction al) auto

lemma find_injections_loop_succeeds_iff:
  "(\<exists>res. fst (find_injections_loop requests injectables cname to_inject lg) = Inr res)
     \<longleftrightarrow> (\<forall>r \<in> set requests. resolves injectables cname r)"
proof (induction requests arbitrary: to_inject lg)
  case Nil
  show ?case by simp
next
  case (Cons r requests)
  obtain n T where r: "r = (n, T)" by (cases r)
  show ?case
  proof (cases rule: resolve_cases [where injectables = injectables and cname = cname and n = n and T = T])
    case absent
    then show ?thesis by (simp add: r resolve_absent resolves_def)
  next
    case mismatch
    then show ?thesis by (simp add: r resolve_mismatch resolves_def)
  next
    case recorded
    then show ?thesis using Cons.IH by (simp add: r resolve_record resolves_def)
  qed
qed

lemma find_injections_loop_map_of:
  "fst (find_injections_loop requests injectables cname to_inject lg) = Inr res \<Longrightarrow>
   map_of res k = (if k \<in> fst ` set requests then Some (lookup_injectable injectables cname k)
                   else map_of to_inject k)"
proof (induction requests arbitrary: to_inject lg)
  case Nil
  then show ?case by simp
next
  case (Cons r requests)
  obtain n T where r: "r = (n, T)" by (cases r)
  let ?v = "lookup_injectable injectables cname n"
  show ?case
  proof (cases rule: resolve_cases [where injectables = injectables and cname = cname and n = n and T = T])
    case absent
    with Cons.prems show ?thesis by (simp add: r resolve_absent)
  next
    case mismatch
    with Cons.prems show ?thesis by (simp add: r resolve_mismatch)
  next
    case recorded
    with Cons.prems have
      "fst (find_injections_loop requests injectables cname (AList.update n ?v to_inject)
              (logger_debug lg cname n ?v)) = Inr res"
      by (simp add: r resolve_record)
    from Cons.IH [OF this] show ?thesis
      by (auto simp: r update_conv')
  qed
qed

lemma update_values: "snd ` set (AList.update k v al) \<subseteq> insert v (snd ` set al)"
  by (induction al) auto

lemma find_injections_loop_not_None:
  "fst (find_injections_loop requests injectables cname to_inject lg) = Inr res \<Longrightarrow>
   PyNone \<notin> snd ` set to_inject \<Longrightarrow> PyNone \<notin> snd ` set res"
proof (induction requests arbitrary: to_inject lg)
  case Nil
  then show ?case by simp
next
  case (Cons r requests)
  obtain n T where r: "r = (n, T)" by (cases r)
  let ?v = "lookup_injectable injectables cname n"
  show ?case
  proof (cases rule: resolve_cases [where injectables = injectables and cname = cname and n = n and T = T])
    case absent
    with Cons.prems show ?thesis by (simp add: r resolve_absent)
  next
    case mismatch
    with Cons.prems show ?thesis by (simp add: r resolve_mismatch)
  next
    case recorded
    with Cons.prems have run:
      "fst (find_injections_loop requests injectables cname (AList.update n ?v to_inject)
              (logger_debug lg cname n ?v)) = Inr res"
      by (simp add: r resolve_record)
    from recorded Cons.prems(2) update_values [of n ?v to_inject]
    have "PyNone \<notin> snd ` set (AList.update n ?v to_inject)"
      by auto
    from Cons.IH [OF run this] show ?thesis .
  qed
qed

lemma find_injections_loop_logger:
  "fst (find_injections_loop requests injectables cname to_inject lg)
     = fst (find_injections_loop requests injectables cname to_inject lg')"
proof (induction requests arbitrary: to_inject lg lg')
  case Nil
  show ?case by simp
next
  case (Cons r requests)
  obtain n T where r: "r = (n, T)" by (cases r)
  show ?case
  proof (cases rule: resolve_cases [where injectables = injectables and cname = cname and n = n and T = T])
    case absent
    then show ?thesis by (simp add: r resolve_absent)
  next
    case mismatch
    then show ?thesis by (simp add: r resolve_mismatch)
  next
    case recorded
    then show ?thesis using Cons.IH by (simp add: r resolve_record)
  qed
qed

lemma logger_debug_enabled: "debug_enabled (logger_debug lg cname n v) = debug_enabled lg"
  by (simp add: logger_debug_def)

lemma logger_debug_emitted:
  "\<exists>new. emitted (logger_debug lg cname n v) = emitted lg @ new"
  by (simp add: logger_debug_def)

lemma find_injections_loop_enabled:
  "debug_enabled (snd (find_injections_loop requests injectables cname to_inject lg))
     = debug_enabled lg"
proof (induction requests arbitrary: to_inject lg)
  case Nil
  show ?case by simp
next
  case (Cons r requests)
  obtain n T where r: "r = (n, T)" by (cases r)
  show ?case
  proof (cases rule: resolve_cases [where injectables = injectables and cname = cname and n = n and T = T])
    case absent
    then show ?thesis by (simp add: r resolve_absent)
  next
    case mismatch
    then show ?thesis by (simp add: r resolve_mismatch)
  next
    case recorded
    then show ?thesis using Cons.IH by (simp add: r resolve_record logger_debug_enabled)
  qed
qed

lemma find_injections_loop_emitted:
  "\<exists>new. emitted (snd (find_injections_loop requests injectables cname to_inject lg))
     = emitted lg @ new"
proof (induction requests arbitrary: to_inject lg)
  case Nil
  show ?case by simp
next
  case (Cons r requests)
  obtain n T where r: "r = (n, T)" by (cases r)
  let ?v = "lookup_injectable injectables cname n"
  show ?case
  proof (cases rule: resolve_cases [where injectables = injectables and cname = cname and n = n and T = T])
    case absent
    then show ?thesis by (simp add: r resolve_absent)
  next
    case mismatch
    then show ?thesis by (simp add: r resolve_mismatch)
  next
    case recorded
    obtain new1 where n1: "emitted (logger_debug lg cname n ?v) = emitted lg @ new1"
      using logger_debug_emitted by blast
    obtain new2 where
      "emitted (snd (find_injections_loop requests injectables cname
          (AList.update n ?v to_inject) (logger_debug lg cname n ?v)))
        = emitted (logger_debug lg cname n ?v) @ new2"
      using Cons.IH by blast
    with n1 recorded show ?thesis by (simp add: r resolve_record)
  qed
qed

lemma get_injection_requests_loop_keys:
  "get_injection_requests_loop type_hints cname component requests = Inr res \<Longrightarrow>
   k \<in> fst ` set res \<Longrightarrow> k \<in> fst ` set requests \<or> \<not> is_skipped component k"
proof (induction type_hints arbitrary: requests)
  case Nil
  then show ?case by auto
next
  case (Cons h type_hints)
  obtain n t where h: "h = (n, t)" by (cases h)
  show ?case
  proof (cases rule: extract_cases [where n = n and component = component and t = t])
    case private_param
    with Cons.prems show ?thesis by (simp add: h extract_private_param)
  next
    case skip
    with Cons.prems(1) have
      "get_injection_requests_loop type_hints cname component requests = Inr res"
      by (simp add: h extract_skip)
    from Cons.IH [OF this Cons.prems(2)] show ?thesis .
  next
    case (recorded c)
    with Cons.prems(1) have
      "get_injection_requests_loop type_hints cname component (AList.update n c requests)
         = Inr res"
      by (simp add: h extract_record)
    from Cons.IH [OF this Cons.prems(2)] recorded(2) show ?thesis
      by (auto simp: dom_update)
  next
    case non_type
    with Cons.prems show ?thesis by (simp add: h extract_non_type)
  qed
qed

lemma get_injection_requests_loop_valid:
  assumes "distinct (map fst type_hints)"
    and "fst ` set type_hints \<inter> fst ` set requests = {}"
    and "\<forall>(n, t) \<in> set type_hints. \<not> startswith n ''_''"
    and "\<forall>(n, t) \<in> set type_hints. \<forall>obj. component = Some obj \<longrightarrow> \<not> hasattr obj n"
    and "\<forall>(n, t) \<in> set type_hints. \<exists>c. generic_origin t = PyClass c"
  shows "\<exists>new. get_injection_requests_loop type_hints cname component requests
                  = Inr (requests @ new)
           \<and> map (\<lambda>(n, c). (n, PyClass c)) new
               = map (\<lambda>(n, t). (n, generic_origin t)) type_hints"
  using assms
proof (induction type_hints arbitrary: requests)
  case Nil
  then show ?case by simp
next
  case (Cons h type_hints)
  obtain n t where h: "h = (n, t)" by (cases h)
  from Cons.prems(5) obtain c where c: "generic_origin t = PyClass c" by (auto simp: h)
  from Cons.prems(2) have fresh: "n \<notin> fst ` set requests" by (auto simp: h)
  have pub: "\<not> startswith n ''_''" using Cons.prems(3) by (auto simp: h)
  have unset: "\<not> is_skipped component n"
    using Cons.prems(4) pub by (auto simp: h is_skipped_def split: option.splits)
  have step: "get_injection_requests_loop (h # type_hints) cname component requests
                = get_injection_requests_loop type_hints cname component (requests @ [(n, c)])"
    using pub unset c fresh by (simp add: h extract_record update_append_fresh)
  have "\<exists>new. get_injection_requests_loop type_hints cname component (requests @ [(n, c)])
                  = Inr ((requests @ [(n, c)]) @ new)
           \<and> map (\<lambda>(n, c). (n, PyClass c)) new
               = map (\<lambda>(n, t). (n, generic_origin t)) type_hints"
  proof (rule Cons.IH)
    show "distinct (map fst type_hints)" using Cons.prems(1) by simp
    show "fst ` set type_hints \<inter> fst ` set (requests @ [(n, c)]) = {}"
      using Cons.prems(1,2) by (auto simp: h)
    show "\<forall>(n, t) \<in> set type_hints. \<not> startswith n ''_''" using Cons.prems(3) by simp
    show "\<forall>(n, t) \<in> set type_hints. \<forall>obj. component = Some obj \<longrightarrow> \<not> hasattr obj n"
      using Cons.prems(4) by simp
    show "\<forall>(n, t) \<in> set type_hints. \<exists>c. generic_origin t = PyClass c"
      using Cons.prems(5) by simp
  qed
  then obtain new where
    run: "get_injection_requests_loop type_hints cname component (requests @ [(n, c)])
            = Inr (requests @ (n, c) # new)"
    and eq: "map (\<lambda>(n, c). (n, PyClass c)) new
               = map (\<lambda>(n, t). (n, generic_origin t)) type_hints"
    by auto
  show ?case
  proof (intro exI conjI)
    show "get_injection_requests_loop (h # type_hints) cname component requests
            = Inr (requests @ ((n, c) # new))"
      using step run by simp
    show "map (\<lambda>(n, c). (n, PyClass c)) ((n, c) # new)
            = map (\<lambda>(n, t). (n, generic_origin t)) (h # type_hints)"
      using eq c by (simp add: h)
  qed
qed

subsection \<open>The two calls as a whole\<close>

lemma find_injections_append:
  "find_injections (pre @ rest) injectables cname lg =
     (case find_injections pre injectables cname lg of
        (Inl e, lg') \<Rightarrow> (Inl e, lg')
      | (Inr to_inject, lg') \<Rightarrow> find_injections_loop rest injectables cname to_inject lg')"
  by (simp add: find_injections_def find_injections_loop_append)

lemma get_injection_requests_append:
  "get_injection_requests (pre @ rest) cname component =
     (case get_injection_requests pre cname component of
        Inl e \<Rightarrow> Inl e
      | Inr requests \<Rightarrow> get_injection_requests_loop rest cname component requests)"
  by (simp add: get_injection_requests_def get_injection_requests_loop_append)

lemma lookup_direct:
  "injectables n = Some v \<Longrightarrow> v \<noteq> PyNone \<Longrightarrow> lookup_injectable injectables cname n = v"
  by (simp add: lookup_injectable_def dict_get_def)

lemma lookup_prefixed:
  "dict_get injectables n = PyNone \<Longrightarrow>
   lookup_injectable injectables cname n = dict_get injectables (cname @ ''_'' @ n)"
  by (simp add: lookup_injectable_def)

lemma find_injections_recorded:
  assumes "lookup_injectable injectables cname n = v" and "v \<noteq> PyNone" and "isinstance v T"
  shows "(\<forall>res. fst (find_injections (pre @ (n, T) # post) injectables cname lg) = Inr res
            \<longrightarrow> map_of res n = Some v)
       \<and> ((\<exists>r. fst (find_injections (pre @ post) injectables cname lg) = Inr r)
            \<longrightarrow> (\<exists>res. fst (find_injections (pre @ (n, T) # post) injectables cname lg)
                         = Inr res))"
proof (intro conjI allI impI)
  fix res
  assume "fst (find_injections (pre @ (n, T) # post) injectables cname lg) = Inr res"
  then have "map_of res n =
      (if n \<in> fst ` set (pre @ (n, T) # post) then Some (lookup_injectable injectables cname n)
       else map_of [] n)"
    unfolding find_injections_def by (rule find_injections_loop_map_of)
  with assms(1) show "map_of res n = Some v" by simp
next
  assume "\<exists>r. fst (find_injections (pre @ post) injectables cname lg) = Inr r"
  then have "\<forall>r \<in> set (pre @ post). resolves injectables cname r"
    unfolding find_injections_def by (simp only: find_injections_loop_succeeds_iff)
  moreover have "resolves injectables cname (n, T)"
    using assms by (simp add: resolves_def)
  ultimately have "\<forall>r \<in> set (pre @ (n, T) # post). resolves injectables cname r"
    by auto
  then show "\<exists>res. fst (find_injections (pre @ (n, T) # post) injectables cname lg) = Inr res"
    unfolding find_injections_def by (simp only: find_injections_loop_succeeds_iff)
qed

lemma find_injections_fails_at:
  assumes "\<And>to_inject lg'. find_injections_loop ((n, T) # post) injectables cname to_inject lg'
             = (Inl e, lg')"
  shows "find_injections (pre @ (n, T) # post) injectables cname lg =
     (case find_injections pre injectables cname lg of
        (Inl e', lg') \<Rightarrow> (Inl e', lg')
      | (Inr to_inject, lg') \<Rightarrow> (Inl e, lg'))"
  by (simp add: find_injections_append assms split: prod.splits sum.splits)

lemma get_injection_requests_fails_at:
  assumes "\<And>requests. get_injection_requests_loop ((n, t) # post) cname component requests
             = Inl e"
  shows "get_injection_requests (pre @ (n, t) # post) cname component =
     (case get_injection_requests pre cname component of
        Inl e' \<Rightarrow> Inl e'
      | Inr requests \<Rightarrow> Inl e)"
  by (simp add: get_injection_requests_append assms split: sum.splits)

lemma get_injection_requests_skipped:
  assumes "is_skipped component n"
  shows "get_injection_requests (pre @ (n, t) # post) cname component
           = get_injection_requests (pre @ post) cname component"
    and "get_injection_requests (pre @ (n, t) # post) cname component = Inr requests
           \<Longrightarrow> n \<notin> fst ` set requests"
proof -
  show "get_injection_requests (pre @ (n, t) # post) cname component
           = get_injection_requests (pre @ post) cname component"
    using assms by (simp add: get_injection_requests_append extract_skip cong: sum.case_cong)
  assume "get_injection_requests (pre @ (n, t) # post) cname component = Inr requests"
  then show "n \<notin> fst ` set requests"
    unfolding get_injection_requests_def
    using get_injection_requests_loop_keys [of _ cname component "[]" requests n] assms
    by auto
qed

lemma find_injections_loop_cong:
  assumes "\<And>n. lookup_injectable injectables cname n = lookup_injectable injectables' cname n"
  shows "find_injections_loop requests injectables cname to_inject lg
           = find_injections_loop requests injectables' cname to_inject lg"
proof (induction requests arbitrary: to_inject lg)
  case Nil
  show ?case by simp
next
  case (Cons r requests)
  obtain n T where r: "r = (n, T)" by (cases r)
  show ?case using Cons.IH by (simp add: r find_injections_loop.simps(2) assms Let_def)
qed

lemma isinstance_subclass: "isinstance (PyInst (Cls name (T # bases)) r origin) T"
  by (cases T) (simp add: isinstance_def)

lemma static_variable_hint_nonempty: "static_variable_hint \<noteq> []"
  by (simp add: static_variable_hint_def)


subsection \<open>Extraction\<close>

text \<open>
  C1. When the keys of \<open>type_hints\<close> are distinct (it is a dict), no name begins with
  \<open>_\<close>, no name is an attribute of the live component (if one is given) and every
  value, once replaced by its \<open>__origin__\<close> when it has one, is a class, then
  \<open>get_injection_requests\<close> returns a dict that is the input with each value replaced by
  its origin where it has one: the same names, in the same order, nothing left out and
  nothing added.
\<close>

theorem get_injection_requests_valid_hints:
  assumes "distinct (map fst type_hints)"
    and "\<forall>(n, t) \<in> set type_hints. \<not> startswith n ''_''"
    and "\<forall>(n, t) \<in> set type_hints. \<forall>obj. component = Some obj \<longrightarrow> \<not> hasattr obj n"
    and "\<forall>(n, t) \<in> set type_hints. \<exists>c. generic_origin t = PyClass c"
  shows "\<exists>requests. get_injection_requests type_hints cname component = Inr requests
           \<and> map (\<lambda>(n, c). (n, PyClass c)) requests
               = map (\<lambda>(n, t). (n, generic_origin t)) type_hints"
  using get_injection_requests_loop_valid [of type_hints "[]" component cname] assms
  by (simp add: get_injection_requests_def)

theorem get_injection_requests_valid_hints_witness:
  "get_injection_requests
     [(''speed'', PyClass float_cls),
      (''wheels'', PyInst (Cls ''_GenericAlias'' [object_cls]) ''typing.List[int]''
                     (Some (PyClass list_cls)))]
     ''drivetrain'' (Some (map_of [(''gyro'', PyInst object_cls ''<Gyro>'' None)]))
   = Inr [(''speed'', float_cls), (''wheels'', list_cls)]"
  using get_injection_requests_valid_hints
    [of "[(''speed'', PyClass float_cls),
          (''wheels'', PyInst (Cls ''_GenericAlias'' [object_cls]) ''typing.List[int]''
                         (Some (PyClass list_cls)))]"
        "Some (map_of [(''gyro'', PyInst object_cls ''<Gyro>'' None)])" "''drivetrain''"]
  by (auto simp: startswith_def generic_origin_def hasattr_def)

text \<open>
  C6. An annotation whose name begins with \<open>_\<close>. Without a live component the call
  raises \<open>MagicInjectError\<close> with the message naming the component and the parameter, when
  the loop reaches it: the outcome is the failure of an earlier annotation if there is
  one, and this error otherwise, whatever follows. With a live component the annotation
  has no effect at all: the call behaves as it does on the hints without that entry (so
  the entry raises nothing), and no dict the call returns has the name as a key.
\<close>

theorem get_injection_requests_private:
  assumes "startswith n ''_''"
  shows "get_injection_requests (pre @ (n, t) # post) cname None =
           (case get_injection_requests pre cname None of
              Inl e \<Rightarrow> Inl e
            | Inr requests \<Rightarrow>
                Inl (MagicInjectError
                       (''Cannot inject into component '' @ cname @ '' __init__ param '' @ n)))
       \<and> get_injection_requests (pre @ (n, t) # post) cname (Some obj)
           = get_injection_requests (pre @ post) cname (Some obj)
       \<and> (\<forall>requests. get_injection_requests (pre @ (n, t) # post) cname (Some obj) = Inr requests
             \<longrightarrow> n \<notin> fst ` set requests)"
proof (intro conjI allI impI)
  have "\<And>requests. get_injection_requests_loop ((n, t) # post) cname None requests
          = Inl (MagicInjectError (private_param_message cname n))"
    using assms by (rule extract_private_param)
  from get_injection_requests_fails_at [of n t post cname None, OF this]
  show "get_injection_requests (pre @ (n, t) # post) cname None =
           (case get_injection_requests pre cname None of
              Inl e \<Rightarrow> Inl e
            | Inr requests \<Rightarrow>
                Inl (MagicInjectError
                       (''Cannot inject into component '' @ cname @ '' __init__ param '' @ n)))"
    by (simp add: private_param_message_def split: sum.splits)
next
  have skipped: "is_skipped (Some obj) n" using assms by (simp add: is_skipped_def)
  show "get_injection_requests (pre @ (n, t) # post) cname (Some obj)
           = get_injection_requests (pre @ post) cname (Some obj)"
    using skipped by (rule get_injection_requests_skipped(1))
  fix requests
  assume "get_injection_requests (pre @ (n, t) # post) cname (Some obj) = Inr requests"
  with skipped show "n \<notin> fst ` set requests"
    by (rule get_injection_requests_skipped(2))
qed

theorem get_injection_requests_private_witness:
  "startswith ''_secret'' ''_''
   \<and> get_injection_requests [(''speed'', PyClass float_cls), (''_secret'', PyClass int_cls)]
         ''drivetrain'' None
       = Inl (MagicInjectError ''Cannot inject into component drivetrain __init__ param _secret'')
   \<and> get_injection_requests [(''speed'', PyClass float_cls), (''_secret'', PyClass int_cls)]
         ''drivetrain'' (Some (map_of [(''gyro'', PyInst object_cls ''<Gyro>'' None)]))
       = Inr [(''speed'', float_cls)]"
  using get_injection_requests_private
    [of "''_secret''" "[(''speed'', PyClass float_cls)]" "PyClass int_cls" "[]" "''drivetrain''"
        "map_of [(''gyro'', PyInst object_cls ''<Gyro>'' None)]"]
  by (simp add: startswith_def get_injection_requests_def get_injection_requests_loop.simps(2)
                generic_origin_def hasattr_def)

text \<open>
  C7, as amended. An annotation whose name does not begin with \<open>_\<close> and is not an
  attribute of the live component (if one is given), and whose value, once replaced by
  its \<open>__origin__\<close> when it has one, is not a class. When the loop reaches it the call
  raises \<open>TypeError\<close>; the message names the component and the attribute, ends with the
  \<open>repr\<close> of the value, and is followed by the (non-empty) advice about static variables
  exactly when a live component was given. The outcome is the failure of an earlier
  annotation if there is one, and this error otherwise, whatever follows.
\<close>

theorem get_injection_requests_non_type:
  assumes "\<not> startswith n ''_''"
    and "\<forall>obj. component = Some obj \<longrightarrow> \<not> hasattr obj n"
    and "\<forall>c. generic_origin t \<noteq> PyClass c"
  shows "get_injection_requests (pre @ (n, t) # post) cname component =
           (case get_injection_requests pre cname component of
              Inl e \<Rightarrow> Inl e
            | Inr requests \<Rightarrow>
                Inl (TypeError
                       (''Component '' @ cname @ '' has a non-type annotation '' @ n @ '': ''
                          @ py_repr (generic_origin t)
                          @ (case component of None \<Rightarrow> [] | Some obj \<Rightarrow> static_variable_hint))))
       \<and> static_variable_hint \<noteq> []"
proof
  have unset: "\<not> is_skipped component n"
    using assms(1,2) by (auto simp: is_skipped_def split: option.splits)
  have "\<And>requests. get_injection_requests_loop ((n, t) # post) cname component requests
          = Inl (TypeError (non_type_message cname n (generic_origin t) component))"
    using assms(1) unset assms(3) by (rule extract_non_type)
  from get_injection_requests_fails_at [of n t post cname component, OF this]
  show "get_injection_requests (pre @ (n, t) # post) cname component =
           (case get_injection_requests pre cname component of
              Inl e \<Rightarrow> Inl e
            | Inr requests \<Rightarrow>
                Inl (TypeError
                       (''Component '' @ cname @ '' has a non-type annotation '' @ n @ '': ''
                          @ py_repr (generic_origin t)
                          @ (case component of None \<Rightarrow> [] | Some obj \<Rightarrow> static_variable_hint))))"
    by (cases component) (simp_all add: non_type_message_def split: sum.splits)
  show "static_variable_hint \<noteq> []" by (rule static_variable_hint_nonempty)
qed

theorem get_injection_requests_non_type_witness:
  "get_injection_requests
     [(''speed'', PyClass float_cls), (''gear'', PyInst int_cls ''42'' None)] ''drivetrain'' None
     = Inl (TypeError ''Component drivetrain has a non-type annotation gear: 42'')
   \<and> get_injection_requests
       [(''speed'', PyClass float_cls), (''gear'', PyInst int_cls ''42'' None)] ''drivetrain''
       (Some (map_of [(''gyro'', PyInst object_cls ''<Gyro>'' None)]))
     = Inl (TypeError (''Component drivetrain has a non-type annotation gear: 42''
                         @ static_variable_hint))"
  using get_injection_requests_non_type
    [of "''gear''" None "PyInst int_cls ''42'' None" "[(''speed'', PyClass float_cls)]" "[]"
        "''drivetrain''"]
    get_injection_requests_non_type
    [of "''gear''" "Some (map_of [(''gyro'', PyInst object_cls ''<Gyro>'' None)])"
        "PyInst int_cls ''42'' None" "[(''speed'', PyClass float_cls)]" "[]" "''drivetrain''"]
  by (simp add: startswith_def get_injection_requests_def get_injection_requests_loop.simps(2)
                generic_origin_def hasattr_def)

text \<open>
  Without the two conditions on the name the statement fails: the value \<open>42\<close> is not a
  class and has no \<open>__origin__\<close>, yet with a live component the annotation is passed over
  when its name is an attribute of the component or begins with \<open>_\<close>, and without one a
  name that begins with \<open>_\<close> raises \<open>MagicInjectError\<close>, not \<open>TypeError\<close>.
\<close>

theorem get_injection_requests_non_type_counterexample:
  "generic_origin (PyInst int_cls ''42'' None) = PyInst int_cls ''42'' None
   \<and> get_injection_requests [(''x'', PyInst int_cls ''42'' None)] ''c''
         (Some (map_of [(''x'', PyInst int_cls ''7'' None)]))
       = Inr []
   \<and> get_injection_requests [(''_x'', PyInst int_cls ''42'' None)] ''c''
         (Some (map_of [(''y'', PyInst int_cls ''7'' None)]))
       = Inr []
   \<and> get_injection_requests [(''_x'', PyInst int_cls ''42'' None)] ''c'' None
       = Inl (MagicInjectError ''Cannot inject into component c __init__ param _x'')"
  by (simp add: generic_origin_def get_injection_requests_def
                get_injection_requests_loop.simps(2) startswith_def hasattr_def
                private_param_message_def)

text \<open>
  C8. An annotation whose name is an attribute of the live component, whatever its value
  (a class or not): the call behaves as it does on the hints without that entry, so the
  entry raises nothing and its value is never examined, and no dict the call returns has
  the name as a key.
\<close>

theorem get_injection_requests_already_set:
  assumes "hasattr obj n"
  shows "get_injection_requests (pre @ (n, t) # post) cname (Some obj)
           = get_injection_requests (pre @ post) cname (Some obj)
       \<and> (\<forall>requests. get_injection_requests (pre @ (n, t) # post) cname (Some obj) = Inr requests
             \<longrightarrow> n \<notin> fst ` set requests)"
proof (intro conjI allI impI)
  have skipped: "is_skipped (Some obj) n" using assms by (simp add: is_skipped_def)
  show "get_injection_requests (pre @ (n, t) # post) cname (Some obj)
           = get_injection_requests (pre @ post) cname (Some obj)"
    using skipped by (rule get_injection_requests_skipped(1))
  fix requests
  assume "get_injection_requests (pre @ (n, t) # post) cname (Some obj) = Inr requests"
  with skipped show "n \<notin> fst ` set requests"
    by (rule get_injection_requests_skipped(2))
qed

theorem get_injection_requests_already_set_witness:
  "hasattr (map_of [(''gear'', PyNone)]) ''gear''
   \<and> get_injection_requests
       [(''speed'', PyClass float_cls), (''gear'', PyInst int_cls ''42'' None),
        (''wheels'', PyClass list_cls)]
       ''drivetrain'' (Some (map_of [(''gear'', PyNone)]))
     = Inr [(''speed'', float_cls), (''wheels'', list_cls)]"
  using get_injection_requests_already_set
    [of "map_of [(''gear'', PyNone)]" "''gear''" "[(''speed'', PyClass float_cls)]"
        "PyInst int_cls ''42'' None" "[(''wheels'', PyClass list_cls)]" "''drivetrain''"]
  by (simp add: startswith_def get_injection_requests_def get_injection_requests_loop.simps(2)
                generic_origin_def hasattr_def)


subsection \<open>Resolution\<close>

text \<open>
  C2, as amended. A request whose name is a key of the pool, with a value that is not
  \<open>None\<close> and is an instance of the requested class. Every dict that \<open>find_injections\<close>
  returns holds that value under the plain name, and the call does return a dict
  whenever it does so on the other requests alone.
\<close>

theorem find_injections_direct:
  assumes "injectables n = Some v" and "v \<noteq> PyNone" and "isinstance v T"
  shows "(\<forall>res. fst (find_injections (pre @ (n, T) # post) injectables cname lg) = Inr res
            \<longrightarrow> map_of res n = Some v)
       \<and> ((\<exists>r. fst (find_injections (pre @ post) injectables cname lg) = Inr r)
            \<longrightarrow> (\<exists>res. fst (find_injections (pre @ (n, T) # post) injectables cname lg)
                         = Inr res))"
proof -
  have "lookup_injectable injectables cname n = v"
    using assms(1,2) by (rule lookup_direct)
  from find_injections_recorded [OF this assms(2,3)] show ?thesis .
qed

theorem find_injections_direct_witness:
  "fst (find_injections [(''speed'', float_cls)]
          (map_of [(''speed'', PyInst float_cls ''3.5'' None)]) ''drivetrain''
          \<lparr>debug_enabled = True, emitted = []\<rparr>)
     = Inr [(''speed'', PyInst float_cls ''3.5'' None)]
   \<and> map_of [(''speed'', PyInst float_cls ''3.5'' None)] ''speed''
       = Some (PyInst float_cls ''3.5'' None)
   \<and> isinstance (PyInst float_cls ''3.5'' None) float_cls"
  using find_injections_direct
    [of "map_of [(''speed'', PyInst float_cls ''3.5'' None)]" "''speed''"
        "PyInst float_cls ''3.5'' None" float_cls "[]" "[]" "''drivetrain''"
        "\<lparr>debug_enabled = True, emitted = []\<rparr>"]
  by (simp add: find_injections_def find_injections_loop.simps(2) Let_def lookup_injectable_def
                dict_get_def isinstance_def float_cls_def)

text \<open>
  The pooled value has to be other than \<open>None\<close>: \<open>None\<close> is an instance of \<open>object\<close>, but
  a pool that holds \<open>None\<close> under the requested name makes the call raise the error for an
  absent injectable.
\<close>

theorem find_injections_direct_counterexample:
  "map_of [(''x'', PyNone)] ''x'' = Some PyNone
   \<and> isinstance PyNone object_cls
   \<and> fst (find_injections [(''x'', object_cls)] (map_of [(''x'', PyNone)]) ''c''
            \<lparr>debug_enabled = True, emitted = []\<rparr>)
       = Inl (MagicInjectError (absent_message ''c'' ''x'' object_cls))"
  by (simp add: find_injections_def find_injections_loop.simps(2) Let_def lookup_injectable_def
                dict_get_def isinstance_def object_cls_def NoneType_cls_def)

text \<open>
  C3, as amended. A request whose name is not a key of the pool, while the key
  \<open>{cname}_{name}\<close> holds a value that is not \<open>None\<close> and is an instance of the requested
  class. Every dict that \<open>find_injections\<close> returns holds that value under the plain
  name, and the call does return a dict whenever it does so on the other requests alone.
\<close>

theorem find_injections_prefixed:
  assumes "injectables n = None" and "injectables (cname @ ''_'' @ n) = Some v"
    and "v \<noteq> PyNone" and "isinstance v T"
  shows "(\<forall>res. fst (find_injections (pre @ (n, T) # post) injectables cname lg) = Inr res
            \<longrightarrow> map_of res n = Some v)
       \<and> ((\<exists>r. fst (find_injections (pre @ post) injectables cname lg) = Inr r)
            \<longrightarrow> (\<exists>res. fst (find_injections (pre @ (n, T) # post) injectables cname lg)
                         = Inr res))"
proof -
  have "lookup_injectable injectables cname n = v"
    using assms(1,2) by (simp add: lookup_injectable_def dict_get_def)
  from find_injections_recorded [OF this assms(3,4)] show ?thesis .
qed

theorem find_injections_prefixed_witness:
  "fst (find_injections [(''speed'', float_cls)]
          (map_of [(''drivetrain_speed'', PyInst float_cls ''3.5'' None)]) ''drivetrain''
          \<lparr>debug_enabled = True, emitted = []\<rparr>)
     = Inr [(''speed'', PyInst float_cls ''3.5'' None)]
   \<and> map_of [(''drivetrain_speed'', PyInst float_cls ''3.5'' None)] ''speed'' = None
   \<and> map_of [(''drivetrain_speed'', PyInst float_cls ''3.5'' None)] (''drivetrain'' @ ''_'' @ ''speed'')
       = Some (PyInst float_cls ''3.5'' None)"
  using find_injections_prefixed
    [of "map_of [(''drivetrain_speed'', PyInst float_cls ''3.5'' None)]" "''speed''"
        "''drivetrain''" "PyInst float_cls ''3.5'' None" float_cls "[]" "[]"
        "\<lparr>debug_enabled = True, emitted = []\<rparr>"]
  by (simp add: find_injections_def find_injections_loop.simps(2) Let_def lookup_injectable_def
                dict_get_def isinstance_def float_cls_def)

text \<open>
  Here too the value has to be other than \<open>None\<close>: with \<open>None\<close> under the prefixed key
  and a request for \<open>object\<close>, the call raises the error for an absent injectable.
\<close>

theorem find_injections_prefixed_counterexample:
  "map_of [(''c_x'', PyNone)] ''x'' = None
   \<and> map_of [(''c_x'', PyNone)] (''c'' @ ''_'' @ ''x'') = Some PyNone
   \<and> isinstance PyNone object_cls
   \<and> fst (find_injections [(''x'', object_cls)] (map_of [(''c_x'', PyNone)]) ''c''
            \<lparr>debug_enabled = True, emitted = []\<rparr>)
       = Inl (MagicInjectError (absent_message ''c'' ''x'' object_cls))"
  by (simp add: find_injections_def find_injections_loop.simps(2) Let_def lookup_injectable_def
                dict_get_def isinstance_def object_cls_def NoneType_cls_def)

text \<open>
  C4. A request for which neither \<open>injectables.get(n)\<close> nor
  \<open>injectables.get(f"{cname}_{n}")\<close> finds a value. The call never returns a dict. Its
  outcome and the logger are those reached once the requests before it have been
  processed, whatever the requests after it are: the failure of an earlier request if
  one fails first, and otherwise \<open>MagicInjectError\<close> with the message about the absent
  variable, naming the component, the attribute and the requested class. Nothing is
  looked up or logged for a later request.
\<close>

theorem find_injections_absent:
  assumes "dict_get injectables n = PyNone"
    and "dict_get injectables (cname @ ''_'' @ n) = PyNone"
  shows "find_injections (pre @ (n, T) # post) injectables cname lg =
     (case find_injections pre injectables cname lg of
        (Inl e, lg') \<Rightarrow> (Inl e, lg')
      | (Inr to_inject, lg') \<Rightarrow>
          (Inl (MagicInjectError
                  (''Component '' @ cname @ '' has variable '' @ n @ '' (type ''
                     @ class_repr T @ ''), which is absent from robot'')), lg'))"
proof -
  have "lookup_injectable injectables cname n = PyNone"
    using assms by (simp add: lookup_injectable_def)
  then have "\<And>to_inject lg'. find_injections_loop ((n, T) # post) injectables cname to_inject lg'
          = (Inl (MagicInjectError (absent_message cname n T)), lg')"
    by (rule resolve_absent)
  from find_injections_fails_at [of n T post injectables cname, OF this]
  show ?thesis
    by (simp add: absent_message_def split: prod.splits sum.splits)
qed

theorem find_injections_absent_witness:
  "dict_get (map_of [(''speed'', PyInst float_cls ''3.5'' None)]) ''gear'' = PyNone
   \<and> dict_get (map_of [(''speed'', PyInst float_cls ''3.5'' None)]) (''drivetrain'' @ ''_'' @ ''gear'')
       = PyNone
   \<and> find_injections [(''speed'', float_cls), (''gear'', int_cls), (''wheels'', list_cls)]
        (map_of [(''speed'', PyInst float_cls ''3.5'' None)]) ''drivetrain''
        \<lparr>debug_enabled = True, emitted = []\<rparr>
     = (Inl (MagicInjectError (absent_message ''drivetrain'' ''gear'' int_cls)),
        \<lparr>debug_enabled = True,
          emitted = [(''drivetrain'', ''speed'', PyInst float_cls ''3.5'' None)]\<rparr>)"
  using find_injections_absent
    [of "map_of [(''speed'', PyInst float_cls ''3.5'' None)]" "''gear''" "''drivetrain''"
        "[(''speed'', float_cls)]" int_cls "[(''wheels'', list_cls)]"
        "\<lparr>debug_enabled = True, emitted = []\<rparr>"]
  by (simp add: find_injections_def find_injections_loop.simps(2) Let_def lookup_injectable_def
                dict_get_def isinstance_def float_cls_def logger_debug_def absent_message_def)

text \<open>
  C5. A request for which the lookup (by the bare name, then by the prefixed key) finds a
  value other than \<open>None\<close> that is not an instance of the requested class, where an
  instance of a subclass counts as an instance (\<open>isinstance_subclass\<close>). When the loop
  reaches it the call raises \<open>MagicInjectError\<close> with the message that names the
  component, the attribute, the class of the value found and the requested class: the
  outcome is the failure of an earlier request if one fails first, and this error
  otherwise, whatever follows. A \<open>float\<close> in the pool for a request declared \<open>int\<close> is the
  instance checked after the theorem.
\<close>

theorem find_injections_type_mismatch:
  assumes "lookup_injectable injectables cname n = v" and "v \<noteq> PyNone"
    and "\<not> isinstance v T"
  shows "find_injections (pre @ (n, T) # post) injectables cname lg =
     (case find_injections pre injectables cname lg of
        (Inl e, lg') \<Rightarrow> (Inl e, lg')
      | (Inr to_inject, lg') \<Rightarrow>
          (Inl (MagicInjectError
                  (''Component '' @ cname @ '' variable '' @ n
                     @ '' does not match type in robot! (Got '' @ class_repr (type_of v)
                     @ '', expected '' @ class_repr T @ '')'')), lg'))"
proof -
  have "\<And>to_inject lg'. find_injections_loop ((n, T) # post) injectables cname to_inject lg'
          = (Inl (MagicInjectError (mismatch_message cname n v T)), lg')"
    using assms by (rule resolve_mismatch)
  from find_injections_fails_at [of n T post injectables cname, OF this]
  show ?thesis
    by (simp add: mismatch_message_def split: prod.splits sum.splits)
qed

theorem find_injections_type_mismatch_witness:
  "lookup_injectable (map_of [(''speed'', PyInst float_cls ''3.5'' None)]) ''drivetrain'' ''speed''
     = PyInst float_cls ''3.5'' None
   \<and> \<not> isinstance (PyInst float_cls ''3.5'' None) int_cls
   \<and> isinstance (PyInst bool_cls ''True'' None) int_cls
   \<and> fst (find_injections [(''speed'', int_cls)]
            (map_of [(''speed'', PyInst float_cls ''3.5'' None)]) ''drivetrain''
            \<lparr>debug_enabled = True, emitted = []\<rparr>)
     = Inl (MagicInjectError
              (''Component drivetrain variable speed does not match type in robot! (Got ''
                 @ class_repr float_cls @ '', expected '' @ class_repr int_cls @ '')''))"
  using find_injections_type_mismatch
    [of "map_of [(''speed'', PyInst float_cls ''3.5'' None)]" "''drivetrain''" "''speed''"
        "PyInst float_cls ''3.5'' None" int_cls "[]" "[]"
        "\<lparr>debug_enabled = True, emitted = []\<rparr>"]
  by (simp add: find_injections_def find_injections_loop.simps(2) Let_def
                lookup_injectable_def dict_get_def isinstance_def
                float_cls_def int_cls_def bool_cls_def object_cls_def)

text \<open>
  C9. Extraction takes no state beyond its arguments, and resolution only the logger.
  The result of extraction followed by resolution (the dict or the exception) does not
  depend on the logger it starts from; running the sequence a second time, from the
  logger the first run left, gives the same result; and the only thing a run changes is
  the list of emitted records, which it extends.
\<close>

theorem extract_then_resolve_deterministic:
  "fst (extract_then_resolve type_hints cname component injectables lg')
     = fst (extract_then_resolve type_hints cname component injectables lg)
   \<and> fst (extract_then_resolve type_hints cname component injectables
            (snd (extract_then_resolve type_hints cname component injectables lg)))
       = fst (extract_then_resolve type_hints cname component injectables lg)
   \<and> debug_enabled (snd (extract_then_resolve type_hints cname component injectables lg))
       = debug_enabled lg
   \<and> (\<exists>new. emitted (snd (extract_then_resolve type_hints cname component injectables lg))
               = emitted lg @ new)"
proof -
  have indep: "fst (extract_then_resolve type_hints cname component injectables l1)
     = fst (extract_then_resolve type_hints cname component injectables l2)" for l1 l2
    by (cases "get_injection_requests type_hints cname component")
       (simp_all add: extract_then_resolve_def find_injections_def
          find_injections_loop_logger [of _ _ _ _ l1 l2])
  have enabled: "debug_enabled (snd (extract_then_resolve type_hints cname component injectables lg))
       = debug_enabled lg"
    by (cases "get_injection_requests type_hints cname component")
       (simp_all add: extract_then_resolve_def find_injections_def find_injections_loop_enabled)
  have emitted: "\<exists>new. emitted (snd (extract_then_resolve type_hints cname component injectables lg))
               = emitted lg @ new"
    by (cases "get_injection_requests type_hints cname component")
       (simp_all add: extract_then_resolve_def find_injections_def find_injections_loop_emitted)
  from indep enabled emitted show ?thesis by blast
qed

theorem extract_then_resolve_deterministic_witness:
  "fst (extract_then_resolve [(''speed'', PyClass float_cls)] ''drivetrain'' None
          (map_of [(''speed'', PyInst float_cls ''3.5'' None)])
          (snd (extract_then_resolve [(''speed'', PyClass float_cls)] ''drivetrain'' None
                  (map_of [(''speed'', PyInst float_cls ''3.5'' None)])
                  \<lparr>debug_enabled = True, emitted = []\<rparr>)))
     = Inr [(''speed'', PyInst float_cls ''3.5'' None)]
   \<and> snd (extract_then_resolve [(''speed'', PyClass float_cls)] ''drivetrain'' None
          (map_of [(''speed'', PyInst float_cls ''3.5'' None)])
          \<lparr>debug_enabled = True, emitted = []\<rparr>)
     = \<lparr>debug_enabled = True,
         emitted = [(''drivetrain'', ''speed'', PyInst float_cls ''3.5'' None)]\<rparr>"
  using extract_then_resolve_deterministic
    [of "[(''speed'', PyClass float_cls)]" "''drivetrain''" None
        "map_of [(''speed'', PyInst float_cls ''3.5'' None)]"
        "snd (extract_then_resolve [(''speed'', PyClass float_cls)] ''drivetrain'' None
                (map_of [(''speed'', PyInst float_cls ''3.5'' None)])
                \<lparr>debug_enabled = True, emitted = []\<rparr>)"
        "\<lparr>debug_enabled = True, emitted = []\<rparr>"]
  by (simp add: extract_then_resolve_def get_injection_requests_def
                get_injection_requests_loop.simps(2) startswith_def generic_origin_def
                find_injections_def find_injections_loop.simps(2) Let_def lookup_injectable_def
                dict_get_def isinstance_def float_cls_def logger_debug_def)

text \<open>
  C10. A request whose name holds \<open>None\<close> in the pool. The lookup goes on to the prefixed
  key; every call behaves as it does on the pool without that entry; when the prefixed
  key holds \<open>None\<close> or is absent too, the call raises the error for an absent injectable
  when the loop reaches the request (the failure of an earlier request if one fails
  first); and no dict the call returns ever holds \<open>None\<close>.
\<close>

theorem find_injections_none_valued:
  assumes "injectables n = Some PyNone"
  shows "lookup_injectable injectables cname n = dict_get injectables (cname @ ''_'' @ n)
       \<and> find_injections requests injectables cname lg
           = find_injections requests (injectables(n := None)) cname lg
       \<and> (dict_get injectables (cname @ ''_'' @ n) = PyNone \<longrightarrow>
            find_injections (pre @ (n, T) # post) injectables cname lg =
              (case find_injections pre injectables cname lg of
                 (Inl e, lg') \<Rightarrow> (Inl e, lg')
               | (Inr to_inject, lg') \<Rightarrow>
                   (Inl (MagicInjectError
                           (''Component '' @ cname @ '' has variable '' @ n @ '' (type ''
                              @ class_repr T @ ''), which is absent from robot'')), lg')))
       \<and> (\<forall>res. fst (find_injections requests injectables cname lg) = Inr res
             \<longrightarrow> PyNone \<notin> snd ` set res)"
proof (intro conjI allI impI)
  have bare: "dict_get injectables n = PyNone"
    using assms by (simp add: dict_get_def)
  then show "lookup_injectable injectables cname n = dict_get injectables (cname @ ''_'' @ n)"
    by (rule lookup_prefixed)
  have same: "dict_get (injectables(n := None)) k = dict_get injectables k" for k
    using assms by (simp add: dict_get_def)
  have "lookup_injectable injectables cname k
               = lookup_injectable (injectables(n := None)) cname k" for k
    unfolding lookup_injectable_def same ..
  then show "find_injections requests injectables cname lg
           = find_injections requests (injectables(n := None)) cname lg"
    unfolding find_injections_def by (rule find_injections_loop_cong)
  {
    assume "dict_get injectables (cname @ ''_'' @ n) = PyNone"
    with bare have "lookup_injectable injectables cname n = PyNone"
      by (simp add: lookup_injectable_def)
    then have "\<And>to_inject lg'. find_injections_loop ((n, T) # post) injectables cname to_inject lg'
          = (Inl (MagicInjectError (absent_message cname n T)), lg')"
      by (rule resolve_absent)
    from find_injections_fails_at [of n T post injectables cname, OF this]
    show "find_injections (pre @ (n, T) # post) injectables cname lg =
              (case find_injections pre injectables cname lg of
                 (Inl e, lg') \<Rightarrow> (Inl e, lg')
               | (Inr to_inject, lg') \<Rightarrow>
                   (Inl (MagicInjectError
                           (''Component '' @ cname @ '' has variable '' @ n @ '' (type ''
                              @ class_repr T @ ''), which is absent from robot'')), lg'))"
      by (simp add: absent_message_def split: prod.splits sum.splits)
  }
  fix res
  assume "fst (find_injections requests injectables cname lg) = Inr res"
  then show "PyNone \<notin> snd ` set res"
    unfolding find_injections_def by (rule find_injections_loop_not_None) simp
qed

theorem find_injections_none_valued_witness:
  "map_of [(''gear'', PyNone), (''speed'', PyInst float_cls ''3.5'' None)] ''gear'' = Some PyNone
   \<and> find_injections [(''speed'', float_cls), (''gear'', object_cls)]
        (map_of [(''gear'', PyNone), (''speed'', PyInst float_cls ''3.5'' None)]) ''drivetrain''
        \<lparr>debug_enabled = True, emitted = []\<rparr>
     = (Inl (MagicInjectError (absent_message ''drivetrain'' ''gear'' object_cls)),
        \<lparr>debug_enabled = True,
          emitted = [(''drivetrain'', ''speed'', PyInst float_cls ''3.5'' None)]\<rparr>)"
  using find_injections_none_valued
    [of "map_of [(''gear'', PyNone), (''speed'', PyInst float_cls ''3.5'' None)]" "''gear''"
        "''drivetrain''" "[(''speed'', float_cls), (''gear'', object_cls)]"
        "\<lparr>debug_enabled = True, emitted = []\<rparr>" "[(''speed'', float_cls)]" object_cls "[]"]
  by (simp add: find_injections_def find_injections_loop.simps(2) Let_def lookup_injectable_def
                dict_get_def isinstance_def float_cls_def logger_debug_def absent_message_def)

end
